theory Spec2Isabelle
  imports Main "HOL-Library.Word"
begin

section \<open>raven-powerctl: the C program as HOL functions\<close>

text \<open>
  The program is \<^verbatim>\<open>tools/raven-powerctl/powerctl.c\<close>: three helpers
  (\<^verbatim>\<open>base_name\<close>, \<^verbatim>\<open>do_reboot\<close>, \<^verbatim>\<open>usage\<close>) and \<^verbatim>\<open>main\<close>.
  Every effect of the program (a flush, the reboot system call, a line written to a
  stream) is an event appended to a trace carried by the state, so that the order of
  effects can be stated.
\<close>

subsection \<open>C values\<close>

text \<open>
  A C \<^verbatim>\<open>int\<close> is a 32-bit word and a \<^verbatim>\<open>long\<close> a 64-bit word (LP64 Linux).
  A C string is the list of its bytes before the terminating NUL; a pointer that may be
  NULL is an \<open>option\<close>.
\<close>

type_synonym c_int = "32 word"
type_synonym c_long = "64 word"

text \<open>\<^verbatim>\<open>s[0]\<close>: the first byte of a string, the terminating NUL when the string is empty.\<close>

definition first_byte :: "string \<Rightarrow> char" where
  "first_byte s = (case s of [] \<Rightarrow> CHR 0x00 | c # _ \<Rightarrow> c)"

text \<open>
  \<^verbatim>\<open>strcmp\<close>: negative, zero or positive as the first string is below, equal to or
  above the second, bytes compared as unsigned. Only the sign is fixed by the C standard,
  and the program only tests the result against zero.
\<close>

fun strcmp :: "string \<Rightarrow> string \<Rightarrow> int" where
  "strcmp [] [] = 0"
| "strcmp [] (y # ys) = - 1"
| "strcmp (x # xs) [] = 1"
| "strcmp (x # xs) (y # ys) =
     (if x = y then strcmp xs ys
      else if (of_char x :: nat) < of_char y then - 1 else 1)"

text \<open>
  \<^verbatim>\<open>strrchr(s, c)\<close> for a byte \<open>c\<close> other than NUL: the suffix of \<open>s\<close> that starts at
  the last occurrence of \<open>c\<close>, or NULL when \<open>c\<close> does not occur.
\<close>

fun strrchr :: "string \<Rightarrow> char \<Rightarrow> string option" where
  "strrchr [] c = None"
| "strrchr (x # xs) c =
     (case strrchr xs c of
        Some r \<Rightarrow> Some r
      | None \<Rightarrow> if x = c then Some (x # xs) else None)"

subsection \<open>The state and the host\<close>

datatype stream = Stdout | Stderr

datatype event =
    Sync
  | Syscall_reboot c_int c_int c_int c_int
  | Fprintf stream string

record world =
  events :: "event list"
  errno :: c_int

text \<open>
  What the program takes from the system headers and from the running system, none of
  it part of the repository: the constants of \<^verbatim>\<open><linux/reboot.h>\<close> and
  \<^verbatim>\<open><errno.h>\<close>, the C library's \<^verbatim>\<open>strerror\<close>, the kernel's answer to the
  reboot system call, and what a write to a stream leaves in \<^verbatim>\<open>errno\<close>. The answer
  is \<open>None\<close> when the call does not return (the power transition took place), and
  \<open>Some (rc, e)\<close> when it returns \<open>rc\<close> and leaves \<open>e\<close> in \<^verbatim>\<open>errno\<close>.
  \<open>fprintf_errno h w out s\<close> is the value of \<^verbatim>\<open>errno\<close> after \<^verbatim>\<open>fprintf\<close> has written
  \<open>s\<close> to \<open>out\<close> from the state \<open>w\<close>: the value it had when the write succeeds, the
  error code of the write (\<^verbatim>\<open>ENOSPC\<close> on a full device, say) when it fails.
\<close>

record host =
  LINUX_REBOOT_MAGIC1 :: c_int
  LINUX_REBOOT_MAGIC2 :: c_int
  LINUX_REBOOT_CMD_RESTART :: c_int
  LINUX_REBOOT_CMD_POWER_OFF :: c_int
  LINUX_REBOOT_CMD_HALT :: c_int
  EPERM :: c_int
  strerror :: "c_int \<Rightarrow> string"
  kernel_reboot :: "world \<Rightarrow> c_int \<Rightarrow> c_int \<Rightarrow> c_int \<Rightarrow> c_int \<Rightarrow> (c_long \<times> c_int) option"
  fprintf_errno :: "world \<Rightarrow> stream \<Rightarrow> string \<Rightarrow> c_int"

definition sync :: "world \<Rightarrow> world" where
  "sync w = w\<lparr>events := events w @ [Sync]\<rparr>"

text \<open>
  \<^verbatim>\<open>fprintf(out, ...)\<close> with the formatted text \<open>s\<close>: the call is recorded, and
  \<^verbatim>\<open>errno\<close> is what the host leaves in it.
\<close>

definition fprintf :: "host \<Rightarrow> stream \<Rightarrow> string \<Rightarrow> world \<Rightarrow> world" where
  "fprintf h out s w =
     w\<lparr>events := events w @ [Fprintf out s], errno := fprintf_errno h w out s\<rparr>"

text \<open>\<^verbatim>\<open>syscall(SYS_reboot, m1, m2, cmd, arg)\<close>: the request is recorded, then the kernel answers.\<close>

definition syscall_SYS_reboot ::
  "host \<Rightarrow> c_int \<Rightarrow> c_int \<Rightarrow> c_int \<Rightarrow> c_int \<Rightarrow> world \<Rightarrow> c_long option \<times> world" where
  "syscall_SYS_reboot h m1 m2 cmd arg w =
     (let w' = w\<lparr>events := events w @ [Syscall_reboot m1 m2 cmd arg]\<rparr>
      in case kernel_reboot h w m1 m2 cmd arg of
           None \<Rightarrow> (None, w')
         | Some (rc, e) \<Rightarrow> (Some rc, w'\<lparr>errno := e\<rparr>))"

subsection \<open>The functions of powerctl.c\<close>

definition base_name :: "string \<Rightarrow> string" where
  "base_name path =
     (case strrchr path (CHR ''/'') of
        Some slash \<Rightarrow> tl slash
      | None \<Rightarrow> path)"

text \<open>
  \<open>do_reboot\<close> returns \<open>None\<close> when the system call never returns, and the C return
  value otherwise.
\<close>

definition do_reboot :: "host \<Rightarrow> c_int \<Rightarrow> world \<Rightarrow> c_int option \<times> world" where
  "do_reboot h cmd w =
     (let w1 = sync w;
          w2 = sync w1
      in case syscall_SYS_reboot h (LINUX_REBOOT_MAGIC1 h) (LINUX_REBOOT_MAGIC2 h) cmd 0 w2 of
           (None, w3) \<Rightarrow> (None, w3)
         | (Some rc, w3) \<Rightarrow> if rc = 0 then (Some 0, w3) else (Some (- 1), w3))"

definition usage :: "host \<Rightarrow> stream \<Rightarrow> string \<Rightarrow> world \<Rightarrow> world" where
  "usage h out argv0 w =
     fprintf h out
       (''Usage: '' @ argv0 @ '' [reboot|poweroff|halt]'' @ [CHR 0x0A] @
        ''Directly invokes the Linux reboot syscall (works without systemd).'' @ [CHR 0x0A])
       w"

text \<open>
  The argument vector is the list \<open>argv[0], ..., argv[argc - 1]\<close>, each entry a string or
  NULL; \<open>argc\<close> is its length. The first lines of \<open>main\<close> compute two local variables,
  \<open>argv0\<close> (line 33) and \<open>cmd\<close> (lines 34 to 39); each is a function of the vector.
\<close>

definition main_argv0 :: "string option list \<Rightarrow> string" where
  "main_argv0 argv =
     (let argc = int (length argv)
      in if argc > 0 \<and> argv ! 0 \<noteq> None then the (argv ! 0) else ''raven-powerctl'')"

definition main_cmd :: "string option list \<Rightarrow> string" where
  "main_cmd argv =
     (let argc = int (length argv);
          name = base_name (main_argv0 argv)
      in if argc \<ge> 2 \<and> argv ! 1 \<noteq> None \<and> first_byte (the (argv ! 1)) \<noteq> CHR ''-''
         then the (argv ! 1)
         else name)"

text \<open>
  \<open>main\<close> returns the exit status, \<open>None\<close> when the process never exits because the
  system call did not return, and the final state. The chain of comparisons either
  returns early (\<open>Inl\<close>, with the status and the state after printing) or sets
  \<open>reboot_cmd\<close> (\<open>Inr\<close>).
\<close>

definition main :: "host \<Rightarrow> string option list \<Rightarrow> world \<Rightarrow> c_int option \<times> world" where
  "main h argv w =
     (let argv0 = main_argv0 argv;
          name = base_name argv0;
          cmd = main_cmd argv;
          sel =
            (if strcmp cmd ''reboot'' = 0 then Inr (LINUX_REBOOT_CMD_RESTART h)
             else if strcmp cmd ''poweroff'' = 0 then Inr (LINUX_REBOOT_CMD_POWER_OFF h)
             else if strcmp cmd ''halt'' = 0 then Inr (LINUX_REBOOT_CMD_HALT h)
             else if strcmp cmd ''-h'' = 0 \<or> strcmp cmd ''--help'' = 0
               then Inl (0, usage h Stdout argv0 w)
             else Inl (2, usage h Stderr argv0 w))
      in case sel of
           Inl (status, w') \<Rightarrow> (Some status, w')
         | Inr reboot_cmd \<Rightarrow>
             (case do_reboot h reboot_cmd w of
                (None, w1) \<Rightarrow> (None, w1)
              | (Some r, w1) \<Rightarrow>
                  if r = 0 then (Some 0, w1)
                  else
                    let saved = errno w1;
                        w2 = fprintf h Stderr
                               (name @ '': reboot syscall failed: '' @ strerror h saved @ [CHR 0x0A]) w1;
                        w3 = (if saved = EPERM h
                              then fprintf h Stderr (name @ '': are you root?'' @ [CHR 0x0A]) w2
                              else w2)
                    in (Some 1, w3)))"

subsection \<open>What a run did\<close>

text \<open>The events a run added to the trace it started from.\<close>

definition added :: "world \<Rightarrow> world \<Rightarrow> event list" where
  "added w w' = drop (length (events w)) (events w')"

text \<open>
  The kernel's answer to the request \<open>do_reboot h cmd\<close> makes from the state \<open>w\<close>:
  the call is made after the two flushes, with the two magic numbers, \<open>cmd\<close> and \<open>0\<close>.
\<close>

definition reboot_answer :: "host \<Rightarrow> c_int \<Rightarrow> world \<Rightarrow> (c_long \<times> c_int) option" where
  "reboot_answer h cmd w =
     kernel_reboot h (sync (sync w)) (LINUX_REBOOT_MAGIC1 h) (LINUX_REBOOT_MAGIC2 h) cmd 0"

text \<open>The action codes of the reboot requests in a trace, in order.\<close>

fun reboot_codes :: "event list \<Rightarrow> c_int list" where
  "reboot_codes [] = []"
| "reboot_codes (Syscall_reboot m1 m2 cmd arg # es) = cmd # reboot_codes es"
| "reboot_codes (e # es) = reboot_codes es"

fun is_output :: "event \<Rightarrow> bool" where
  "is_output (Fprintf out s) = True"
| "is_output e = False"

fun is_flush_or_reboot :: "event \<Rightarrow> bool" where
  "is_flush_or_reboot (Fprintf out s) = False"
| "is_flush_or_reboot e = True"

text \<open>
  A Linux host for the concrete runs below: the values the names have in the kernel's
  headers, the C library's descriptions of \<open>EPERM\<close> and \<open>EINVAL\<close> (the only codes the
  runs below meet), and a kernel that answers the
  reboot request from a caller without privilege (\<open>-1\<close>, \<open>EPERM\<close>), or accepts it and
  returns (\<open>0\<close>), or rejects it with \<open>EINVAL\<close>, and streams on which every write succeeds.
\<close>

definition linux_strerror :: "c_int \<Rightarrow> string" where
  "linux_strerror e =
     (if e = 1 then ''Operation not permitted''
      else if e = 22 then ''Invalid argument''
      else ''Unknown error'')"

definition linux :: "(c_long \<times> c_int) option \<Rightarrow> host" where
  "linux answer =
     \<lparr>LINUX_REBOOT_MAGIC1 = 0xfee1dead,
      LINUX_REBOOT_MAGIC2 = 672274793,
      LINUX_REBOOT_CMD_RESTART = 0x01234567,
      LINUX_REBOOT_CMD_POWER_OFF = 0x4321FEDC,
      LINUX_REBOOT_CMD_HALT = 0xCDEF0123,
      EPERM = 1,
      strerror = linux_strerror,
      kernel_reboot = (\<lambda>w m1 m2 cmd arg. answer),
      fprintf_errno = (\<lambda>w out s. errno w)\<rparr>"

definition boot :: world where
  "boot = \<lparr>events = [], errno = 0\<rparr>"

section \<open>Library facts\<close>

lemma strcmp_eq_0_iff: "strcmp a b = 0 \<longleftrightarrow> a = b"
  by (induction a b rule: strcmp.induct) auto

lemma strrchr_None_iff: "strrchr s c = None \<longleftrightarrow> c \<notin> set s"
  by (induction s) (auto split: option.splits)

lemma strrchr_Some:
  "strrchr s c = Some r \<Longrightarrow> \<exists>pre post. s = pre @ c # post \<and> r = c # post \<and> c \<notin> set post"
proof (induction s arbitrary: r)
  case Nil
  then show ?case by simp
next
  case (Cons x xs)
  show ?case
  proof (cases "strrchr xs c")
    case None
    with Cons.prems have "x = c" and "r = x # xs"
      by (auto split: if_splits)
    moreover from None have "c \<notin> set xs"
      by (simp add: strrchr_None_iff)
    ultimately show ?thesis by blast
  next
    case (Some r')
    with Cons.prems have "r = r'" by simp
    with Some Cons.IH obtain pre post where "xs = pre @ c # post" "r = c # post" "c \<notin> set post"
      by blast
    then have "x # xs = (x # pre) @ c # post" by simp
    with \<open>r = c # post\<close> \<open>c \<notin> set post\<close> show ?thesis by blast
  qed
qed

section \<open>The runs of \<open>do_reboot\<close> and \<open>main\<close>\<close>

lemma added_append [simp]: "added w (w\<lparr>events := events w @ es, errno := e\<rparr>) = es"
  by (simp add: added_def)

lemma added_append' [simp]: "added w (w\<lparr>events := events w @ es\<rparr>) = es"
  by (simp add: added_def)

lemma added_usage [simp]:
  "added w (usage h out argv0 w) =
     [Fprintf out
        (''Usage: '' @ argv0 @ '' [reboot|poweroff|halt]'' @ [CHR 0x0A] @
         ''Directly invokes the Linux reboot syscall (works without systemd).'' @ [CHR 0x0A])]"
  by (simp add: usage_def fprintf_def added_def)

lemma do_reboot_returned:
  "reboot_answer h cmd w = Some (rc, e) \<Longrightarrow>
   do_reboot h cmd w =
     (Some (if rc = 0 then 0 else - 1),
      w\<lparr>events := events w @
           [Sync, Sync, Syscall_reboot (LINUX_REBOOT_MAGIC1 h) (LINUX_REBOOT_MAGIC2 h) cmd 0],
        errno := e\<rparr>)"
  by (simp add: do_reboot_def syscall_SYS_reboot_def sync_def reboot_answer_def)

lemma do_reboot_no_return:
  "reboot_answer h cmd w = None \<Longrightarrow>
   do_reboot h cmd w =
     (None,
      w\<lparr>events := events w @
           [Sync, Sync, Syscall_reboot (LINUX_REBOOT_MAGIC1 h) (LINUX_REBOOT_MAGIC2 h) cmd 0]\<rparr>)"
  by (simp add: do_reboot_def syscall_SYS_reboot_def sync_def reboot_answer_def)

lemma main_help:
  "main_cmd argv = ''-h'' \<or> main_cmd argv = ''--help'' \<Longrightarrow>
   main h argv w = (Some 0, usage h Stdout (main_argv0 argv) w)"
  by (auto simp add: main_def strcmp_eq_0_iff)

lemma main_invalid:
  "main_cmd argv \<notin> {''reboot'', ''poweroff'', ''halt'', ''-h'', ''--help''} \<Longrightarrow>
   main h argv w = (Some 2, usage h Stderr (main_argv0 argv) w)"
  by (simp add: main_def strcmp_eq_0_iff)

lemma action_cases:
  assumes "(nm, code) \<in>
     {(''reboot'', LINUX_REBOOT_CMD_RESTART h), (''poweroff'', LINUX_REBOOT_CMD_POWER_OFF h),
      (''halt'', LINUX_REBOOT_CMD_HALT h)}"
  obtains
      "nm = ''reboot''" "code = LINUX_REBOOT_CMD_RESTART h"
    | "nm = ''poweroff''" "code = LINUX_REBOOT_CMD_POWER_OFF h"
    | "nm = ''halt''" "code = LINUX_REBOOT_CMD_HALT h"
  using assms by auto

lemma main_action_returned:
  assumes sel: "(main_cmd argv, code) \<in>
     {(''reboot'', LINUX_REBOOT_CMD_RESTART h), (''poweroff'', LINUX_REBOOT_CMD_POWER_OFF h),
      (''halt'', LINUX_REBOOT_CMD_HALT h)}"
    and ans: "reboot_answer h code w = Some (rc, e)"
  shows "fst (main h argv w) = Some (if rc = 0 then 0 else 1)"
    and "added w (snd (main h argv w)) =
      [Sync, Sync, Syscall_reboot (LINUX_REBOOT_MAGIC1 h) (LINUX_REBOOT_MAGIC2 h) code 0] @
      (if rc = 0 then []
       else Fprintf Stderr (base_name (main_argv0 argv) @ '': reboot syscall failed: '' @
                            strerror h e @ [CHR 0x0A]) #
            (if e = EPERM h
             then [Fprintf Stderr (base_name (main_argv0 argv) @ '': are you root?'' @ [CHR 0x0A])]
             else []))"
proof -
  have "fst (main h argv w) = Some (if rc = 0 then 0 else 1) \<and>
    added w (snd (main h argv w)) =
      [Sync, Sync, Syscall_reboot (LINUX_REBOOT_MAGIC1 h) (LINUX_REBOOT_MAGIC2 h) code 0] @
      (if rc = 0 then []
       else Fprintf Stderr (base_name (main_argv0 argv) @ '': reboot syscall failed: '' @
                            strerror h e @ [CHR 0x0A]) #
            (if e = EPERM h
             then [Fprintf Stderr (base_name (main_argv0 argv) @ '': are you root?'' @ [CHR 0x0A])]
             else []))"
    using sel
  proof (cases rule: action_cases)
    case 1
    with ans show ?thesis
      by (simp add: main_def Let_def strcmp_eq_0_iff do_reboot_returned fprintf_def added_def)
  next
    case 2
    with ans show ?thesis
      by (simp add: main_def Let_def strcmp_eq_0_iff do_reboot_returned fprintf_def added_def)
  next
    case 3
    with ans show ?thesis
      by (simp add: main_def Let_def strcmp_eq_0_iff do_reboot_returned fprintf_def added_def)
  qed
  then show "fst (main h argv w) = Some (if rc = 0 then 0 else 1)"
    and "added w (snd (main h argv w)) =
      [Sync, Sync, Syscall_reboot (LINUX_REBOOT_MAGIC1 h) (LINUX_REBOOT_MAGIC2 h) code 0] @
      (if rc = 0 then []
       else Fprintf Stderr (base_name (main_argv0 argv) @ '': reboot syscall failed: '' @
                            strerror h e @ [CHR 0x0A]) #
            (if e = EPERM h
             then [Fprintf Stderr (base_name (main_argv0 argv) @ '': are you root?'' @ [CHR 0x0A])]
             else []))"
    by simp_all
qed

lemma main_action_no_return:
  assumes sel: "(main_cmd argv, code) \<in>
     {(''reboot'', LINUX_REBOOT_CMD_RESTART h), (''poweroff'', LINUX_REBOOT_CMD_POWER_OFF h),
      (''halt'', LINUX_REBOOT_CMD_HALT h)}"
    and ans: "reboot_answer h code w = None"
  shows "main h argv w =
     (None,
      w\<lparr>events := events w @
           [Sync, Sync, Syscall_reboot (LINUX_REBOOT_MAGIC1 h) (LINUX_REBOOT_MAGIC2 h) code 0]\<rparr>)"
  using sel
proof (cases rule: action_cases)
  case 1
  with ans show ?thesis
    by (simp add: main_def strcmp_eq_0_iff do_reboot_no_return)
next
  case 2
  with ans show ?thesis
    by (simp add: main_def strcmp_eq_0_iff do_reboot_no_return)
next
  case 3
  with ans show ?thesis
    by (simp add: main_def strcmp_eq_0_iff do_reboot_no_return)
qed

text \<open>Whatever the kernel answers, an action run flushes twice and then makes one request.\<close>

lemma main_action_effects:
  assumes sel: "(main_cmd argv, code) \<in>
     {(''reboot'', LINUX_REBOOT_CMD_RESTART h), (''poweroff'', LINUX_REBOOT_CMD_POWER_OFF h),
      (''halt'', LINUX_REBOOT_CMD_HALT h)}"
  shows "filter is_flush_or_reboot (added w (snd (main h argv w))) =
           [Sync, Sync, Syscall_reboot (LINUX_REBOOT_MAGIC1 h) (LINUX_REBOOT_MAGIC2 h) code 0]"
    and "take 3 (added w (snd (main h argv w))) =
           [Sync, Sync, Syscall_reboot (LINUX_REBOOT_MAGIC1 h) (LINUX_REBOOT_MAGIC2 h) code 0]"
    and "reboot_codes (added w (snd (main h argv w))) = [code]"
proof -
  let ?req = "[Sync, Sync, Syscall_reboot (LINUX_REBOOT_MAGIC1 h) (LINUX_REBOOT_MAGIC2 h) code 0]"
  have "\<exists>outs. added w (snd (main h argv w)) = ?req @ outs \<and> (\<forall>x \<in> set outs. is_output x)"
  proof (cases "reboot_answer h code w")
    case None
    with sel show ?thesis by (simp add: main_action_no_return)
  next
    case (Some a)
    obtain rc e where "a = (rc, e)" by (cases a)
    with Some sel show ?thesis by (simp add: main_action_returned)
  qed
  then obtain outs where run: "added w (snd (main h argv w)) = ?req @ outs"
    and outs: "\<forall>x \<in> set outs. is_output x"
    by blast
  have no_fr: "filter is_flush_or_reboot outs = []"
    using outs by (induction outs) (auto elim: is_output.elims)
  have no_codes: "reboot_codes outs = []"
    using outs by (induction outs) (auto elim: is_output.elims)
  show "filter is_flush_or_reboot (added w (snd (main h argv w))) = ?req"
    by (simp add: run no_fr)
  show "take 3 (added w (snd (main h argv w))) = ?req"
    by (simp add: run)
  show "reboot_codes (added w (snd (main h argv w))) = [code]"
    by (simp add: run no_codes)
qed

subsection \<open>The base name of a path\<close>

lemma strrchr_last: "c \<notin> set post \<Longrightarrow> strrchr (pre @ c # post) c = Some (c # post)"
proof (induction pre)
  case Nil
  then have "strrchr post c = None" by (simp add: strrchr_None_iff)
  then show ?case by simp
next
  case (Cons x pre)
  then show ?case by simp
qed

lemma base_name_no_slash: "CHR ''/'' \<notin> set path \<Longrightarrow> base_name path = path"
proof -
  assume "CHR ''/'' \<notin> set path"
  then have "strrchr path (CHR ''/'') = None" by (simp add: strrchr_None_iff)
  then show ?thesis by (simp add: base_name_def)
qed

lemma base_name_after_slash:
  "CHR ''/'' \<notin> set b \<Longrightarrow> base_name (dir @ ''/'' @ b) = b"
  using strrchr_last [of "CHR ''/''" b dir] by (simp add: base_name_def)

subsection \<open>The local variables \<open>argv0\<close> and \<open>cmd\<close>\<close>

lemma main_cmd_argument:
  "(\<forall>t. a1 \<noteq> CHR ''-'' # t) \<Longrightarrow> main_cmd (a0 # Some a1 # rest) = a1"
  by (cases a1) (simp_all add: main_cmd_def first_byte_def)

lemma main_cmd_dash_argument:
  "main_cmd (a0 # Some (CHR ''-'' # t) # rest) = base_name (main_argv0 [a0])"
  by (simp add: main_cmd_def main_argv0_def first_byte_def)

lemma main_argv0_head: "main_argv0 (a0 # rest) = main_argv0 [a0]"
  by (simp add: main_argv0_def)

lemma main_cmd_single: "main_cmd [a0] = base_name (main_argv0 [a0])"
  by (simp add: main_cmd_def)

lemma main_dash_argument_ignored:
  "main h (a0 # Some (CHR ''-'' # t) # rest) w = main h [a0] w"
  unfolding main_def main_cmd_dash_argument main_cmd_single
    main_argv0_head [of a0 "Some (CHR ''-'' # t) # rest"]
  by (rule refl)

text \<open>Exit status 2 is the mark of the last branch of the chain, and of no other run.\<close>

lemma main_status_2_iff:
  "fst (main h argv w) = Some 2 \<longleftrightarrow>
   main_cmd argv \<notin> {''reboot'', ''poweroff'', ''halt'', ''-h'', ''--help''}"
proof (cases "main_cmd argv \<in> {''reboot'', ''poweroff'', ''halt''}")
  case True
  then obtain code where sel: "(main_cmd argv, code) \<in>
     {(''reboot'', LINUX_REBOOT_CMD_RESTART h), (''poweroff'', LINUX_REBOOT_CMD_POWER_OFF h),
      (''halt'', LINUX_REBOOT_CMD_HALT h)}"
    by auto
  have "fst (main h argv w) \<noteq> Some 2"
  proof (cases "reboot_answer h code w")
    case None
    with sel show ?thesis by (simp add: main_action_no_return)
  next
    case (Some a)
    obtain rc e where "a = (rc, e)" by (cases a)
    with Some sel show ?thesis by (simp add: main_action_returned)
  qed
  with True show ?thesis by auto
next
  case False
  show ?thesis
  proof (cases "main_cmd argv = ''-h'' \<or> main_cmd argv = ''--help''")
    case True
    then have "fst (main h argv w) = Some 0" by (simp add: main_help)
    with True show ?thesis by auto
  next
    case no_help: False
    with False have "main_cmd argv \<notin> {''reboot'', ''poweroff'', ''halt'', ''-h'', ''--help''}"
      by simp
    then show ?thesis by (simp add: main_invalid)
  qed
qed

text \<open>The definitions a concrete run unfolds.\<close>

lemmas run_defs =
  main_def main_cmd_def main_argv0_def base_name_def first_byte_def do_reboot_def
  syscall_SYS_reboot_def sync_def fprintf_def usage_def reboot_answer_def added_def
  linux_def linux_strerror_def boot_def

section \<open>The claims\<close>

subsection \<open>Name resolution\<close>

text \<open>
  Claim C8. For every invocation path, \<open>base_name\<close> returns the part of the path after
  its last \<open>/\<close> when the path contains one, and the whole path otherwise: when there
  is a slash, the path is some directory prefix, a slash and the base name, and the base
  name itself contains no slash. So \<open>/usr/sbin/reboot\<close> resolves to \<open>reboot\<close>.
\<close>

theorem base_name_last_component:
  "(CHR ''/'' \<in> set path \<longrightarrow>
      (\<exists>dir. path = dir @ ''/'' @ base_name path) \<and> CHR ''/'' \<notin> set (base_name path)) \<and>
   (CHR ''/'' \<notin> set path \<longrightarrow> base_name path = path)"
proof (cases "strrchr path (CHR ''/'')")
  case None
  then have "CHR ''/'' \<notin> set path"
    by (simp add: strrchr_None_iff)
  with None show ?thesis
    by (simp add: base_name_def)
next
  case (Some slash)
  then obtain pre post where parts: "path = pre @ CHR ''/'' # post" "slash = CHR ''/'' # post"
      "CHR ''/'' \<notin> set post"
    by (blast dest: strrchr_Some)
  from Some parts have "base_name path = post"
    by (simp add: base_name_def)
  with parts show ?thesis by auto
qed

theorem base_name_last_component_witness:
  "CHR ''/'' \<in> set ''/usr/sbin/reboot'' \<and>
   (\<exists>dir. ''/usr/sbin/reboot'' = dir @ ''/'' @ base_name ''/usr/sbin/reboot'') \<and>
   CHR ''/'' \<notin> set (base_name ''/usr/sbin/reboot'') \<and>
   base_name ''/usr/sbin/reboot'' = ''reboot'' \<and>
   CHR ''/'' \<notin> set ''halt'' \<and> base_name ''halt'' = ''halt''"
  using base_name_last_component [of "''/usr/sbin/reboot''"]
    base_name_last_component [of "''halt''"]
  by (simp add: base_name_def)

text \<open>
  Claim C5. When a first argument is present and does not begin with \<open>-\<close>, \<open>cmd\<close> is
  that argument, whatever argument zero is; in every other case (no first argument, a
  NULL one, or one that begins with \<open>-\<close>) \<open>cmd\<close> is the base name of \<open>argv0\<close>, which
  is argument zero when that is present.
\<close>

theorem requested_name_resolution:
  "((\<forall>t. a1 \<noteq> CHR ''-'' # t) \<longrightarrow> main_cmd (a0 # Some a1 # rest) = a1) \<and>
   ((\<nexists>b0 b1 more. argv = b0 # Some b1 # more \<and> (\<forall>t. b1 \<noteq> CHR ''-'' # t)) \<longrightarrow>
      main_cmd argv = base_name (main_argv0 argv)) \<and>
   main_argv0 (Some path # rest) = path"
proof -
  have "main_cmd argv = base_name (main_argv0 argv)"
    if other: "\<nexists>b0 b1 more. argv = b0 # Some b1 # more \<and> (\<forall>t. b1 \<noteq> CHR ''-'' # t)"
  proof (cases argv)
    case Nil
    then show ?thesis by (simp add: main_cmd_def)
  next
    case (Cons b0 tail)
    show ?thesis
    proof (cases tail)
      case Nil
      with Cons show ?thesis by (simp add: main_cmd_def)
    next
      case (Cons x more)
      show ?thesis
      proof (cases x)
        case None
        with \<open>argv = b0 # tail\<close> Cons show ?thesis by (simp add: main_cmd_def)
      next
        case (Some b1)
        with other \<open>argv = b0 # tail\<close> Cons obtain t where "b1 = CHR ''-'' # t"
          by auto
        with Some \<open>argv = b0 # tail\<close> Cons show ?thesis
          by (simp add: main_cmd_def first_byte_def)
      qed
    qed
  qed
  then show ?thesis
    by (simp add: main_cmd_argument main_argv0_def)
qed

theorem requested_name_resolution_witness:
  "(\<forall>t. ''reboot'' \<noteq> CHR ''-'' # t) \<and>
   main_cmd [Some ''/sbin/halt'', Some ''reboot''] = ''reboot'' \<and>
   (\<nexists>b0 b1 more. [Some ''/sbin/halt'', Some ''-f''] = b0 # Some b1 # more \<and>
      (\<forall>t. b1 \<noteq> CHR ''-'' # t)) \<and>
   main_cmd [Some ''/sbin/halt'', Some ''-f''] = ''halt'' \<and>
   main_argv0 [Some ''/sbin/halt'', Some ''-f''] = ''/sbin/halt''"
  using requested_name_resolution
    [of "''reboot''" "Some ''/sbin/halt''" "[]" "[Some ''/sbin/halt'', Some ''-f'']" "''/sbin/halt''"]
  by (simp add: main_cmd_def main_argv0_def base_name_def first_byte_def)

text \<open>
  Claim C10. When the argument vector is empty or argument zero is NULL, \<open>argv0\<close> is the
  fixed name \<open>raven-powerctl\<close>, which is its own base name, and the whole run is the run
  of an invocation whose argument zero is that name: the usage text and the diagnostics
  are printed with it. The model reads \<open>argv[0]\<close> only under the guard of line 33, so
  the result depends on no value of a missing argument zero.
\<close>

theorem missing_argv0_substituted:
  "argv = [] \<or> (\<exists>rest. argv = None # rest) \<Longrightarrow>
   main_argv0 argv = ''raven-powerctl'' \<and>
   base_name (main_argv0 argv) = ''raven-powerctl'' \<and>
   main h argv w = main h (Some ''raven-powerctl'' # tl argv) w"
proof -
  assume missing: "argv = [] \<or> (\<exists>rest. argv = None # rest)"
  then have argv0: "main_argv0 argv = ''raven-powerctl''"
    by (auto simp add: main_argv0_def)
  have argv0': "main_argv0 (Some ''raven-powerctl'' # tl argv) = ''raven-powerctl''"
    by (simp add: main_argv0_def)
  have name: "base_name ''raven-powerctl'' = ''raven-powerctl''"
    by (simp add: base_name_no_slash)
  from missing have "main_cmd argv = main_cmd (Some ''raven-powerctl'' # tl argv)"
    by (auto simp add: main_cmd_def main_argv0_def)
  then have "main h argv w = main h (Some ''raven-powerctl'' # tl argv) w"
    unfolding main_def argv0 argv0' by simp
  with argv0 name show ?thesis by simp
qed

theorem missing_argv0_substituted_witness:
  "([] :: string option list) = [] \<and>
   main_argv0 [] = ''raven-powerctl'' \<and>
   main (linux None) [] boot = (Some 2, usage (linux None) Stderr ''raven-powerctl'' boot) \<and>
   (\<exists>rest. [None, Some ''halt''] = None # rest) \<and>
   main (linux (Some (- 1, 22))) [None, Some ''halt''] boot =
     (Some 1,
      \<lparr>events =
         [Sync, Sync, Syscall_reboot 0xfee1dead 672274793 0xCDEF0123 0,
          Fprintf Stderr (''raven-powerctl: reboot syscall failed: Invalid argument'' @ [CHR 0x0A])],
       errno = 22\<rparr>)"
  using missing_argv0_substituted [of "[]" "linux None" boot]
    missing_argv0_substituted [of "[None, Some ''halt'']" "linux (Some (- 1, 22))" boot]
  by (simp add: run_defs)

subsection \<open>Selecting and performing the action\<close>

text \<open>
  Claim C4. The action code is selected by exact, case-sensitive comparison of \<open>cmd\<close>:
  a run whose \<open>cmd\<close> is \<open>reboot\<close> makes one reboot request, with the restart code; one
  whose \<open>cmd\<close> is \<open>poweroff\<close> makes one with the power-off code; one whose \<open>cmd\<close> is
  \<open>halt\<close> makes one with the halt code; a run with any other \<open>cmd\<close> makes no request.
  Each of the three names becomes \<open>cmd\<close> when it is the first argument, and when it is
  the base name of argument zero and there is no first argument.
\<close>

theorem action_selection:
  "(main_cmd argv = ''reboot'' \<longrightarrow>
      reboot_codes (added w (snd (main h argv w))) = [LINUX_REBOOT_CMD_RESTART h]) \<and>
   (main_cmd argv = ''poweroff'' \<longrightarrow>
      reboot_codes (added w (snd (main h argv w))) = [LINUX_REBOOT_CMD_POWER_OFF h]) \<and>
   (main_cmd argv = ''halt'' \<longrightarrow>
      reboot_codes (added w (snd (main h argv w))) = [LINUX_REBOOT_CMD_HALT h]) \<and>
   (main_cmd argv \<notin> {''reboot'', ''poweroff'', ''halt''} \<longrightarrow>
      reboot_codes (added w (snd (main h argv w))) = []) \<and>
   (nm \<in> {''reboot'', ''poweroff'', ''halt''} \<longrightarrow>
      main_cmd (a0 # Some nm # rest) = nm \<and>
      main_cmd [Some nm] = nm \<and>
      main_cmd [Some (dir @ ''/'' @ nm)] = nm)"
proof -
  have none: "reboot_codes (added w (snd (main h argv w))) = []"
    if "main_cmd argv \<notin> {''reboot'', ''poweroff'', ''halt''}"
  proof (cases "main_cmd argv \<in> {''-h'', ''--help''}")
    case True
    then show ?thesis by (auto simp add: main_help)
  next
    case False
    with that have "main_cmd argv \<notin> {''reboot'', ''poweroff'', ''halt'', ''-h'', ''--help''}"
      by simp
    then show ?thesis by (simp add: main_invalid)
  qed
  have placed: "main_cmd (a0 # Some nm # rest) = nm \<and> main_cmd [Some nm] = nm \<and>
      main_cmd [Some (dir @ ''/'' @ nm)] = nm"
    if nm: "nm \<in> {''reboot'', ''poweroff'', ''halt''}"
  proof -
    from nm have no_slash: "CHR ''/'' \<notin> set nm" and no_dash: "\<forall>t. nm \<noteq> CHR ''-'' # t"
      by auto
    from no_slash have "base_name nm = nm"
      by (rule base_name_no_slash)
    moreover from no_slash have "base_name (dir @ ''/'' @ nm) = nm"
      by (rule base_name_after_slash)
    ultimately show ?thesis
      using no_dash by (simp add: main_cmd_argument main_cmd_single main_argv0_def)
  qed
  show ?thesis
    using none placed main_action_effects(3) [of argv _ h w]
    by simp
qed

theorem action_selection_witness:
  "main_cmd [Some ''/sbin/reboot''] = ''reboot'' \<and>
   reboot_codes (added boot (snd (main (linux None) [Some ''/sbin/reboot''] boot))) =
     [0x01234567] \<and>
   main_cmd [Some ''/usr/sbin/poweroff''] = ''poweroff'' \<and>
   reboot_codes (added boot (snd (main (linux None) [Some ''/usr/sbin/poweroff''] boot))) =
     [0x4321FEDC] \<and>
   main_cmd [Some ''raven-powerctl'', Some ''halt''] = ''halt'' \<and>
   reboot_codes
     (added boot (snd (main (linux (Some (- 1, 1))) [Some ''raven-powerctl'', Some ''halt''] boot))) =
     [0xCDEF0123] \<and>
   main_cmd [Some ''raven-powerctl'', Some ''Reboot''] \<notin> {''reboot'', ''poweroff'', ''halt''} \<and>
   reboot_codes
     (added boot (snd (main (linux None) [Some ''raven-powerctl'', Some ''Reboot''] boot))) = [] \<and>
   ''halt'' \<in> {''reboot'', ''poweroff'', ''halt''} \<and>
   main_cmd [Some ''/sbin/reboot'', Some ''halt''] = ''halt''"
  using action_selection [of "[Some ''/sbin/reboot'']" boot "linux None"]
    action_selection [of "[Some ''/usr/sbin/poweroff'']" boot "linux None"]
    action_selection [of "[Some ''raven-powerctl'', Some ''halt'']" boot "linux (Some (- 1, 1))"]
    action_selection [of "[Some ''raven-powerctl'', Some ''Reboot'']" boot "linux None"]
    action_selection [of _ _ _ "''halt''" "Some ''/sbin/reboot''" "[]"]
  by (simp add: run_defs)

text \<open>
  Claim C6. \<open>do_reboot\<close> adds exactly three events to the trace, in this order: a flush,
  a second flush, and the reboot request with the two magic numbers, the action code it
  was given and a zero argument. When the call returns zero \<open>do_reboot\<close> returns 0
  (success), when it returns anything else \<open>do_reboot\<close> returns -1 (failure) and
  \<open>errno\<close> holds the error code; when the call does not return, neither does
  \<open>do_reboot\<close>. For each of the three actions \<open>main\<close> performs exactly these effects
  with that action's code before anything it prints, and exits with status 0 on a zero
  result and with a nonzero status otherwise.
\<close>

theorem do_reboot_flushes_twice_then_requests:
  "added w (snd (do_reboot h cmd w)) =
     [Sync, Sync, Syscall_reboot (LINUX_REBOOT_MAGIC1 h) (LINUX_REBOOT_MAGIC2 h) cmd 0] \<and>
   (\<forall>rc e. reboot_answer h cmd w = Some (rc, e) \<longrightarrow>
      fst (do_reboot h cmd w) = Some (if rc = 0 then 0 else - 1) \<and>
      errno (snd (do_reboot h cmd w)) = e) \<and>
   (reboot_answer h cmd w = None \<longrightarrow> fst (do_reboot h cmd w) = None) \<and>
   ((main_cmd argv, code) \<in>
      {(''reboot'', LINUX_REBOOT_CMD_RESTART h), (''poweroff'', LINUX_REBOOT_CMD_POWER_OFF h),
       (''halt'', LINUX_REBOOT_CMD_HALT h)} \<longrightarrow>
      take 3 (added w (snd (main h argv w))) = added w (snd (do_reboot h code w)) \<and>
      filter is_flush_or_reboot (added w (snd (main h argv w))) = added w (snd (do_reboot h code w)) \<and>
      (\<forall>rc e. reboot_answer h code w = Some (rc, e) \<longrightarrow>
         fst (main h argv w) = Some (if rc = 0 then 0 else 1)))"
proof -
  have req: "added w (snd (do_reboot h c w)) =
     [Sync, Sync, Syscall_reboot (LINUX_REBOOT_MAGIC1 h) (LINUX_REBOOT_MAGIC2 h) c 0]" for c
  proof (cases "reboot_answer h c w")
    case None
    then show ?thesis by (simp add: do_reboot_no_return)
  next
    case (Some a)
    then show ?thesis by (cases a) (simp add: do_reboot_returned)
  qed
  show ?thesis
    by (simp add: req do_reboot_returned do_reboot_no_return main_action_effects
        main_action_returned)
qed

theorem do_reboot_flushes_twice_then_requests_witness:
  "reboot_answer (linux (Some (- 1, 1))) 0xCDEF0123 boot = Some (- 1, 1) \<and>
   do_reboot (linux (Some (- 1, 1))) 0xCDEF0123 boot =
     (Some (- 1),
      \<lparr>events = [Sync, Sync, Syscall_reboot 0xfee1dead 672274793 0xCDEF0123 0], errno = 1\<rparr>) \<and>
   (main_cmd [Some ''/sbin/halt''], 0xCDEF0123) \<in>
      {(''reboot'', LINUX_REBOOT_CMD_RESTART (linux (Some (- 1, 1)))),
       (''poweroff'', LINUX_REBOOT_CMD_POWER_OFF (linux (Some (- 1, 1)))),
       (''halt'', LINUX_REBOOT_CMD_HALT (linux (Some (- 1, 1))))} \<and>
   take 3 (added boot (snd (main (linux (Some (- 1, 1))) [Some ''/sbin/halt''] boot))) =
     [Sync, Sync, Syscall_reboot 0xfee1dead 672274793 0xCDEF0123 0] \<and>
   fst (main (linux (Some (- 1, 1))) [Some ''/sbin/halt''] boot) = Some 1 \<and>
   reboot_answer (linux (Some (0, 0))) 0x01234567 boot = Some (0, 0) \<and>
   do_reboot (linux (Some (0, 0))) 0x01234567 boot =
     (Some 0,
      \<lparr>events = [Sync, Sync, Syscall_reboot 0xfee1dead 672274793 0x01234567 0], errno = 0\<rparr>) \<and>
   reboot_answer (linux None) 0x4321FEDC boot = None \<and>
   do_reboot (linux None) 0x4321FEDC boot =
     (None,
      \<lparr>events = [Sync, Sync, Syscall_reboot 0xfee1dead 672274793 0x4321FEDC 0], errno = 0\<rparr>)"
  using do_reboot_flushes_twice_then_requests
    [of boot "linux (Some (- 1, 1))" "0xCDEF0123" "[Some ''/sbin/halt'']" "0xCDEF0123"]
    do_reboot_flushes_twice_then_requests
    [of boot "linux (Some (0, 0))" "0x01234567" "[Some ''/sbin/halt'']" "0xCDEF0123"]
    do_reboot_flushes_twice_then_requests
    [of boot "linux None" "0x4321FEDC" "[Some ''/sbin/halt'']" "0xCDEF0123"]
  by (simp add: run_defs)

subsection \<open>Reporting the outcome\<close>

text \<open>
  The exit status as a function of the resolved command \<open>cmd\<close> and of the result of
  the reboot call. When \<open>cmd\<close> is one of the three action names and the call for that
  action's code returns, the status is 0 if the call returned zero and 1 otherwise, and
  in the zero case the run prints nothing. When \<open>cmd\<close> is \<open>-h\<close> or \<open>--help\<close> the
  status is 0. When \<open>cmd\<close> is none of the five names (an unknown argument, or no usable
  argument under an invocation name that is no command) the status is 2.
\<close>

theorem exit_status_contract:
  "((main_cmd argv, code) \<in>
      {(''reboot'', LINUX_REBOOT_CMD_RESTART h), (''poweroff'', LINUX_REBOOT_CMD_POWER_OFF h),
       (''halt'', LINUX_REBOOT_CMD_HALT h)} \<and>
    reboot_answer h code w = Some (rc, e) \<longrightarrow>
      fst (main h argv w) = Some (if rc = 0 then 0 else 1) \<and>
      (rc = 0 \<longrightarrow> filter is_output (added w (snd (main h argv w))) = [])) \<and>
   (main_cmd argv \<in> {''-h'', ''--help''} \<longrightarrow> fst (main h argv w) = Some 0) \<and>
   (main_cmd argv \<notin> {''reboot'', ''poweroff'', ''halt'', ''-h'', ''--help''} \<longrightarrow>
      fst (main h argv w) = Some 2)"
proof -
  have "fst (main h argv w) = Some (if rc = 0 then 0 else 1) \<and>
        (rc = 0 \<longrightarrow> filter is_output (added w (snd (main h argv w))) = [])"
    if "(main_cmd argv, code) \<in>
      {(''reboot'', LINUX_REBOOT_CMD_RESTART h), (''poweroff'', LINUX_REBOOT_CMD_POWER_OFF h),
       (''halt'', LINUX_REBOOT_CMD_HALT h)}"
      and "reboot_answer h code w = Some (rc, e)"
    using that by (simp add: main_action_returned)
  moreover have "fst (main h argv w) = Some 0" if "main_cmd argv \<in> {''-h'', ''--help''}"
    using that by (simp add: main_help)
  moreover have "fst (main h argv w) = Some 2"
    if "main_cmd argv \<notin> {''reboot'', ''poweroff'', ''halt'', ''-h'', ''--help''}"
    using that by (simp add: main_invalid)
  ultimately show ?thesis by blast
qed

theorem exit_status_contract_witness:
  "(main_cmd [Some ''poweroff''], 0x4321FEDC) \<in>
      {(''reboot'', LINUX_REBOOT_CMD_RESTART (linux (Some (0, 0)))),
       (''poweroff'', LINUX_REBOOT_CMD_POWER_OFF (linux (Some (0, 0)))),
       (''halt'', LINUX_REBOOT_CMD_HALT (linux (Some (0, 0))))} \<and>
   reboot_answer (linux (Some (0, 0))) 0x4321FEDC boot = Some (0, 0) \<and>
   fst (main (linux (Some (0, 0))) [Some ''poweroff''] boot) = Some 0 \<and>
   filter is_output (added boot (snd (main (linux (Some (0, 0))) [Some ''poweroff''] boot))) = [] \<and>
   (main_cmd [Some ''/sbin/reboot''], 0x01234567) \<in>
      {(''reboot'', LINUX_REBOOT_CMD_RESTART (linux (Some (- 1, 1)))),
       (''poweroff'', LINUX_REBOOT_CMD_POWER_OFF (linux (Some (- 1, 1)))),
       (''halt'', LINUX_REBOOT_CMD_HALT (linux (Some (- 1, 1))))} \<and>
   reboot_answer (linux (Some (- 1, 1))) 0x01234567 boot = Some (- 1, 1) \<and>
   fst (main (linux (Some (- 1, 1))) [Some ''/sbin/reboot''] boot) = Some 1 \<and>
   main_cmd [Some ''--help''] \<in> {''-h'', ''--help''} \<and>
   fst (main (linux None) [Some ''--help''] boot) = Some 0 \<and>
   main_cmd [Some ''raven-powerctl'', Some ''bogus''] \<notin>
      {''reboot'', ''poweroff'', ''halt'', ''-h'', ''--help''} \<and>
   fst (main (linux None) [Some ''raven-powerctl'', Some ''bogus''] boot) = Some 2 \<and>
   main_cmd [Some ''raven-powerctl''] \<notin> {''reboot'', ''poweroff'', ''halt'', ''-h'', ''--help''} \<and>
   fst (main (linux None) [Some ''raven-powerctl''] boot) = Some 2"
  using exit_status_contract
      [of "[Some ''poweroff'']" "0x4321FEDC" "linux (Some (0, 0))" boot 0 0]
    exit_status_contract
      [of "[Some ''/sbin/reboot'']" "0x01234567" "linux (Some (- 1, 1))" boot "- 1" 1]
    exit_status_contract [of "[Some ''--help'']" _ "linux None" boot]
    exit_status_contract [of "[Some ''raven-powerctl'', Some ''bogus'']" _ "linux None" boot]
    exit_status_contract [of "[Some ''raven-powerctl'']" _ "linux None" boot]
  by (simp add: run_defs)

text \<open>
  Claim C1. The spec has the exit status 0 whenever help is requested, and a user
  requests help by giving \<open>-h\<close> or \<open>--help\<close> as the first argument. The program does
  not exit with status 0 there: the guard of line 37 keeps an argument that begins
  with \<open>-\<close> from becoming \<open>cmd\<close>, so the comparison of line 48 is made with the base
  name of the invocation. \<open>raven-powerctl -h\<close> and \<open>raven-powerctl --help\<close> exit with
  status 2, after printing the usage message on standard error and nothing on standard
  output; \<open>/sbin/reboot -h\<close>, run without privilege, requests the restart and exits
  with status 1. The other parts of the claim (0 on success with no output, 2 for an
  invalid or missing command, 1 when the call fails) hold, as shown above. The defect
  is the one of claim C2.
\<close>

theorem help_request_exit_status:
  "fst (main h [Some ''raven-powerctl'', Some ''-h''] w) = Some 2 \<and>
   fst (main h [Some ''raven-powerctl'', Some ''--help''] w) = Some 2 \<and>
   added w (snd (main h [Some ''raven-powerctl'', Some ''-h''] w)) =
     [Fprintf Stderr
        (''Usage: raven-powerctl [reboot|poweroff|halt]'' @ [CHR 0x0A] @
         ''Directly invokes the Linux reboot syscall (works without systemd).'' @ [CHR 0x0A])] \<and>
   fst (main (linux (Some (- 1, 1))) [Some ''/sbin/reboot'', Some ''-h''] boot) = Some 1 \<and>
   reboot_codes (added boot (snd (main (linux (Some (- 1, 1))) [Some ''/sbin/reboot'', Some ''-h''] boot))) =
     [0x01234567]"
proof -
  have cmd: "main_cmd [Some ''raven-powerctl'', Some ''-h''] = ''raven-powerctl''"
    "main_cmd [Some ''raven-powerctl'', Some ''--help''] = ''raven-powerctl''"
    by (simp_all add: main_cmd_def main_argv0_def base_name_def first_byte_def)
  have argv0: "main_argv0 [Some ''raven-powerctl'', Some ''-h''] = ''raven-powerctl''"
    by (simp add: main_argv0_def)
  have short: "main h [Some ''raven-powerctl'', Some ''-h''] w =
      (Some 2, usage h Stderr (main_argv0 [Some ''raven-powerctl'', Some ''-h'']) w)"
    by (rule main_invalid) (simp add: cmd)
  have long: "main h [Some ''raven-powerctl'', Some ''--help''] w =
      (Some 2, usage h Stderr (main_argv0 [Some ''raven-powerctl'', Some ''--help'']) w)"
    by (rule main_invalid) (simp add: cmd)
  have reboot: "fst (main (linux (Some (- 1, 1))) [Some ''/sbin/reboot'', Some ''-h''] boot) = Some 1 \<and>
    reboot_codes (added boot (snd (main (linux (Some (- 1, 1))) [Some ''/sbin/reboot'', Some ''-h''] boot))) =
      [0x01234567]"
    by (simp add: run_defs)
  from short long reboot show ?thesis
    by (simp add: argv0)
qed

text \<open>
  Claim C7. When the reboot call of an action run returns a nonzero result, the exit
  status is 1 and what the run prints is, on standard error, the line made of the
  program name (the base name of \<open>argv0\<close>), the fixed text \<open>: reboot syscall failed: \<close>
  and the description \<open>strerror\<close> gives of the error code left in \<open>errno\<close>, followed
  by the line \<open>are you root?\<close> under the same name exactly when that error code is
  \<open>EPERM\<close>, and followed by nothing otherwise.
\<close>

theorem failure_diagnostic:
  "(main_cmd argv, code) \<in>
      {(''reboot'', LINUX_REBOOT_CMD_RESTART h), (''poweroff'', LINUX_REBOOT_CMD_POWER_OFF h),
       (''halt'', LINUX_REBOOT_CMD_HALT h)} \<Longrightarrow>
   reboot_answer h code w = Some (rc, e) \<Longrightarrow> rc \<noteq> 0 \<Longrightarrow>
   fst (main h argv w) = Some 1 \<and>
   filter is_output (added w (snd (main h argv w))) =
     Fprintf Stderr
       (base_name (main_argv0 argv) @ '': reboot syscall failed: '' @ strerror h e @ [CHR 0x0A]) #
     (if e = EPERM h
      then [Fprintf Stderr (base_name (main_argv0 argv) @ '': are you root?'' @ [CHR 0x0A])]
      else [])"
proof -
  let ?name = "base_name (main_argv0 argv)"
  let ?failed = "Fprintf Stderr (?name @ '': reboot syscall failed: '' @ strerror h e @ [CHR 0x0A])"
  let ?hint = "Fprintf Stderr (?name @ '': are you root?'' @ [CHR 0x0A])"
  assume sel: "(main_cmd argv, code) \<in>
      {(''reboot'', LINUX_REBOOT_CMD_RESTART h), (''poweroff'', LINUX_REBOOT_CMD_POWER_OFF h),
       (''halt'', LINUX_REBOOT_CMD_HALT h)}"
    and ans: "reboot_answer h code w = Some (rc, e)" and failed: "rc \<noteq> 0"
  from sel ans failed have status: "fst (main h argv w) = Some 1"
    by (simp add: main_action_returned(1))
  from sel ans failed have "added w (snd (main h argv w)) =
      [Sync, Sync, Syscall_reboot (LINUX_REBOOT_MAGIC1 h) (LINUX_REBOOT_MAGIC2 h) code 0] @
      ?failed # (if e = EPERM h then [?hint] else [])"
    by (simp add: main_action_returned(2))
  then have "filter is_output (added w (snd (main h argv w))) =
      ?failed # (if e = EPERM h then [?hint] else [])"
    by simp
  with status show ?thesis by simp
qed

theorem failure_diagnostic_witness:
  "(main_cmd [Some ''/sbin/reboot''], 0x01234567) \<in>
      {(''reboot'', LINUX_REBOOT_CMD_RESTART (linux (Some (- 1, 1)))),
       (''poweroff'', LINUX_REBOOT_CMD_POWER_OFF (linux (Some (- 1, 1)))),
       (''halt'', LINUX_REBOOT_CMD_HALT (linux (Some (- 1, 1))))} \<and>
   reboot_answer (linux (Some (- 1, 1))) 0x01234567 boot = Some (- 1, 1) \<and>
   (- 1 :: c_long) \<noteq> 0 \<and>
   fst (main (linux (Some (- 1, 1))) [Some ''/sbin/reboot''] boot) = Some 1 \<and>
   filter is_output (added boot (snd (main (linux (Some (- 1, 1))) [Some ''/sbin/reboot''] boot))) =
     [Fprintf Stderr (''reboot: reboot syscall failed: Operation not permitted'' @ [CHR 0x0A]),
      Fprintf Stderr (''reboot: are you root?'' @ [CHR 0x0A])] \<and>
   (main_cmd [Some ''raven-powerctl'', Some ''halt''], 0xCDEF0123) \<in>
      {(''reboot'', LINUX_REBOOT_CMD_RESTART (linux (Some (- 1, 22)))),
       (''poweroff'', LINUX_REBOOT_CMD_POWER_OFF (linux (Some (- 1, 22)))),
       (''halt'', LINUX_REBOOT_CMD_HALT (linux (Some (- 1, 22))))} \<and>
   reboot_answer (linux (Some (- 1, 22))) 0xCDEF0123 boot = Some (- 1, 22) \<and>
   filter is_output
     (added boot (snd (main (linux (Some (- 1, 22))) [Some ''raven-powerctl'', Some ''halt''] boot))) =
     [Fprintf Stderr (''raven-powerctl: reboot syscall failed: Invalid argument'' @ [CHR 0x0A])]"
  using failure_diagnostic
      [of "[Some ''/sbin/reboot'']" "0x01234567" "linux (Some (- 1, 1))" boot "- 1" 1]
    failure_diagnostic
      [of "[Some ''raven-powerctl'', Some ''halt'']" "0xCDEF0123" "linux (Some (- 1, 22))" boot "- 1" 22]
  by (simp add: run_defs)

text \<open>
  Claim C9. A run whose \<open>cmd\<close> is not one of \<open>reboot\<close>, \<open>poweroff\<close>, \<open>halt\<close> (the help
  path and the invalid-command path) does one thing only: it prints the usage message,
  to standard output on the help path and to standard error otherwise. That one
  \<open>fprintf\<close> is the only event it adds to the trace: no flush and no reboot request.
\<close>

theorem no_flush_or_request_without_action:
  "main_cmd argv \<notin> {''reboot'', ''poweroff'', ''halt''} \<Longrightarrow>
   snd (main h argv w) =
     usage h (if main_cmd argv \<in> {''-h'', ''--help''} then Stdout else Stderr) (main_argv0 argv) w \<and>
   filter is_flush_or_reboot (added w (snd (main h argv w))) = [] \<and>
   length (added w (snd (main h argv w))) = 1"
proof (cases "main_cmd argv \<in> {''-h'', ''--help''}")
  case True
  then have "main h argv w = (Some 0, usage h Stdout (main_argv0 argv) w)"
    by (simp add: main_help)
  with True show ?thesis by simp
next
  case False
  assume "main_cmd argv \<notin> {''reboot'', ''poweroff'', ''halt''}"
  with False have "main_cmd argv \<notin> {''reboot'', ''poweroff'', ''halt'', ''-h'', ''--help''}"
    by simp
  then have "main h argv w = (Some 2, usage h Stderr (main_argv0 argv) w)"
    by (rule main_invalid)
  with False show ?thesis by simp
qed

theorem no_flush_or_request_without_action_witness:
  "main_cmd [Some ''raven-powerctl'', Some ''bogus''] \<notin> {''reboot'', ''poweroff'', ''halt''} \<and>
   main (linux None) [Some ''raven-powerctl'', Some ''bogus''] boot =
     (Some 2, usage (linux None) Stderr ''raven-powerctl'' boot) \<and>
   filter is_flush_or_reboot
     (added boot (snd (main (linux None) [Some ''raven-powerctl'', Some ''bogus''] boot))) = [] \<and>
   main_cmd [Some ''-h''] \<notin> {''reboot'', ''poweroff'', ''halt''} \<and>
   main (linux None) [Some ''-h''] boot = (Some 0, usage (linux None) Stdout ''-h'' boot) \<and>
   filter is_flush_or_reboot (added boot (snd (main (linux None) [Some ''-h''] boot))) = []"
  using no_flush_or_request_without_action
      [of "[Some ''raven-powerctl'', Some ''bogus'']" "linux None" boot]
    no_flush_or_request_without_action [of "[Some ''-h'']" "linux None" boot]
  by (simp add: run_defs)

subsection \<open>Arguments that name no action\<close>

text \<open>
  Claim C3, as the code has it. A first argument that does not begin with \<open>-\<close> and is
  none of \<open>reboot\<close>, \<open>poweroff\<close>, \<open>halt\<close> gives the usage error (usage message on
  standard error, exit status 2) under every invocation name. A first argument that
  begins with \<open>-\<close> and is not \<open>-h\<close> or \<open>--help\<close> is skipped by the guard of line 37:
  the run is the run of the same invocation without arguments, so it is the usage error
  exactly when the base name of the invocation is none of \<open>reboot\<close>, \<open>poweroff\<close>,
  \<open>halt\<close>, \<open>-h\<close>, \<open>--help\<close>.
\<close>

theorem usage_error_for_arguments:
  "(a1 \<notin> {''reboot'', ''poweroff'', ''halt''} \<and> (\<forall>t. a1 \<noteq> CHR ''-'' # t) \<longrightarrow>
      main h (a0 # Some a1 # rest) w =
        (Some 2, usage h Stderr (main_argv0 (a0 # Some a1 # rest)) w)) \<and>
   (a1 = CHR ''-'' # t \<and> a1 \<notin> {''-h'', ''--help''} \<longrightarrow>
      main h (a0 # Some a1 # rest) w = main h [a0] w \<and>
      (main h (a0 # Some a1 # rest) w =
         (Some 2, usage h Stderr (main_argv0 (a0 # Some a1 # rest)) w) \<longleftrightarrow>
       base_name (main_argv0 [a0]) \<notin> {''reboot'', ''poweroff'', ''halt'', ''-h'', ''--help''}))"
proof -
  have no_dash: "main h (a0 # Some a1 # rest) w =
        (Some 2, usage h Stderr (main_argv0 (a0 # Some a1 # rest)) w)"
    if "a1 \<notin> {''reboot'', ''poweroff'', ''halt''}" and "\<forall>t. a1 \<noteq> CHR ''-'' # t"
  proof -
    from that have "main_cmd (a0 # Some a1 # rest) = a1"
      by (simp add: main_cmd_argument)
    moreover from that have "a1 \<notin> {''reboot'', ''poweroff'', ''halt'', ''-h'', ''--help''}"
      by auto
    ultimately show ?thesis by (simp add: main_invalid)
  qed
  have dash: "main h (a0 # Some a1 # rest) w = main h [a0] w \<and>
      (main h (a0 # Some a1 # rest) w =
         (Some 2, usage h Stderr (main_argv0 (a0 # Some a1 # rest)) w) \<longleftrightarrow>
       base_name (main_argv0 [a0]) \<notin> {''reboot'', ''poweroff'', ''halt'', ''-h'', ''--help''})"
    if "a1 = CHR ''-'' # t"
  proof -
    let ?argv = "a0 # Some a1 # rest"
    from that have same: "main h ?argv w = main h [a0] w"
      by (simp add: main_dash_argument_ignored)
    from that have cmd: "main_cmd ?argv = base_name (main_argv0 [a0])"
      by (simp add: main_cmd_dash_argument)
    have "main h ?argv w = (Some 2, usage h Stderr (main_argv0 ?argv) w) \<longleftrightarrow>
          main_cmd ?argv \<notin> {''reboot'', ''poweroff'', ''halt'', ''-h'', ''--help''}"
    proof
      assume "main h ?argv w = (Some 2, usage h Stderr (main_argv0 ?argv) w)"
      then have "fst (main h ?argv w) = Some 2" by simp
      then show "main_cmd ?argv \<notin> {''reboot'', ''poweroff'', ''halt'', ''-h'', ''--help''}"
        using main_status_2_iff [of h ?argv w] by blast
    next
      assume "main_cmd ?argv \<notin> {''reboot'', ''poweroff'', ''halt'', ''-h'', ''--help''}"
      then show "main h ?argv w = (Some 2, usage h Stderr (main_argv0 ?argv) w)"
        by (rule main_invalid)
    qed
    with same cmd show ?thesis by simp
  qed
  from no_dash dash show ?thesis by blast
qed

theorem usage_error_for_arguments_witness:
  "''bogus'' \<notin> {''reboot'', ''poweroff'', ''halt''} \<and> (\<forall>t. ''bogus'' \<noteq> CHR ''-'' # t) \<and>
   main (linux None) [Some ''/sbin/reboot'', Some ''bogus''] boot =
     (Some 2, usage (linux None) Stderr ''/sbin/reboot'' boot) \<and>
   ''-x'' = CHR ''-'' # ''x'' \<and> ''-x'' \<notin> {''-h'', ''--help''} \<and>
   main (linux None) [Some ''raven-powerctl'', Some ''-x''] boot =
     main (linux None) [Some ''raven-powerctl''] boot \<and>
   main (linux None) [Some ''raven-powerctl'', Some ''-x''] boot =
     (Some 2, usage (linux None) Stderr ''raven-powerctl'' boot)"
  using usage_error_for_arguments
      [of "''bogus''" "linux None" "Some ''/sbin/reboot''" "[]" boot]
    usage_error_for_arguments
      [of "''-x''" "linux None" "Some ''raven-powerctl''" "[]" boot "''x''"]
  by (simp add: run_defs)

text \<open>
  Claim C3 as the spec states it fails: invoked as \<open>/sbin/reboot\<close> with the first
  argument \<open>-x\<close>, which begins with \<open>-\<close> and is no help flag, the program does not
  print the usage message and exit with status 2. It flushes twice, requests the
  restart, and exits with status 0 when the request returns zero.
\<close>

theorem dash_argument_counterexample:
  "first_byte ''-x'' = CHR ''-'' \<and> ''-x'' \<notin> {''-h'', ''--help''} \<and>
   main (linux (Some (0, 0))) [Some ''/sbin/reboot'', Some ''-x''] boot =
     (Some 0,
      \<lparr>events = [Sync, Sync, Syscall_reboot 0xfee1dead 672274793 0x01234567 0], errno = 0\<rparr>) \<and>
   main (linux (Some (0, 0))) [Some ''/sbin/reboot'', Some ''-x''] boot \<noteq>
     (Some 2, usage (linux (Some (0, 0))) Stderr ''/sbin/reboot'' boot)"
  by (simp add: run_defs)

text \<open>
  Claim C2. The spec has \<open>-h\<close> and \<open>--help\<close> yield the help path (usage on standard
  output, exit status 0) wherever they stand, and line 48 of the program compares \<open>cmd\<close>
  with both flags. But the guard of line 37 never lets an argument that begins with
  \<open>-\<close> become \<open>cmd\<close>, so a help flag given as the first argument is not seen by
  line 48: \<open>raven-powerctl --help\<close> and \<open>raven-powerctl -h\<close> print the usage message
  on standard error and exit with status 2, and \<open>/sbin/reboot --help\<close> requests the
  restart. The help path is taken only when the base name of the invocation itself is
  a help flag.
\<close>

theorem help_flag_argument_skipped:
  "main h [Some ''raven-powerctl'', Some ''--help''] w =
     (Some 2, usage h Stderr ''raven-powerctl'' w) \<and>
   main h [Some ''raven-powerctl'', Some ''-h''] w =
     (Some 2, usage h Stderr ''raven-powerctl'' w) \<and>
   main (linux (Some (0, 0))) [Some ''/sbin/reboot'', Some ''--help''] boot =
     (Some 0,
      \<lparr>events = [Sync, Sync, Syscall_reboot 0xfee1dead 672274793 0x01234567 0], errno = 0\<rparr>) \<and>
   main h [Some ''-h''] w = (Some 0, usage h Stdout ''-h'' w)"
proof -
  have cmd: "main_cmd [Some ''raven-powerctl'', Some ''--help''] = ''raven-powerctl''"
    "main_cmd [Some ''raven-powerctl'', Some ''-h''] = ''raven-powerctl''"
    "main_cmd [Some ''-h''] = ''-h''"
    by (simp_all add: main_cmd_def main_argv0_def base_name_def first_byte_def)
  have argv0: "main_argv0 [Some ''raven-powerctl'', Some ''--help''] = ''raven-powerctl''"
    "main_argv0 [Some ''raven-powerctl'', Some ''-h''] = ''raven-powerctl''"
    "main_argv0 [Some ''-h''] = ''-h''"
    by (simp_all add: main_argv0_def)
  have "main h [Some ''raven-powerctl'', Some ''--help''] w =
     (Some 2, usage h Stderr ''raven-powerctl'' w)"
    using main_invalid [of "[Some ''raven-powerctl'', Some ''--help'']" h w]
    by (simp add: cmd argv0)
  moreover have "main h [Some ''raven-powerctl'', Some ''-h''] w =
     (Some 2, usage h Stderr ''raven-powerctl'' w)"
    using main_invalid [of "[Some ''raven-powerctl'', Some ''-h'']" h w]
    by (simp add: cmd argv0)
  moreover have "main (linux (Some (0, 0))) [Some ''/sbin/reboot'', Some ''--help''] boot =
     (Some 0,
      \<lparr>events = [Sync, Sync, Syscall_reboot 0xfee1dead 672274793 0x01234567 0], errno = 0\<rparr>)"
    by (simp add: run_defs)
  moreover have "main h [Some ''-h''] w = (Some 0, usage h Stdout ''-h'' w)"
    using main_help [of "[Some ''-h'']" h w]
    by (simp add: cmd argv0)
  ultimately show ?thesis by simp
qed

end
